theory Spec2Isabelle
  imports Main
begin

section \<open>Session-context comparison of the MagicAuth SDK\<close>

text \<open>
  The object \<open>compare\<close> of \<^verbatim>\<open>src/index.ts\<close> holds the two functions that decide whether the
  context of a request matches the context a session was created in. Both delegate to
  packages that are not part of the repository: \<^verbatim>\<open>ua-parser-js\<close> parses a user agent,
  \<^verbatim>\<open>ip\<close> classifies and compares addresses. The functions of the repository are embedded
  with those entry points as parameters, so that every statement about them holds for
  whatever the packages compute.
\<close>

subsection \<open>The parsed user agent\<close>

text \<open>
  \<open>getResult()\<close> returns an object of which the code reads \<open>cpu.architecture\<close>,
  \<open>os.name\<close> and \<open>browser.name\<close>, each a string or \<open>undefined\<close> (\<open>None\<close>). The other
  attributes of the result (versions, device, engine) live in the extension part of the
  records below. The parser is a function from strings to such results: the constructor
  and \<open>getResult()\<close> are taken to return for every string.
\<close>

record cpu =
  architecture :: "string option"

record os =
  name :: "string option"

record browser =
  name :: "string option"

record ('c, 'o, 'b) IResult =
  cpu :: "'c cpu_scheme"
  os :: "'o os_scheme"
  browser :: "'b browser_scheme"

subsection \<open>Exceptions of the address package\<close>

text \<open>
  The package \<^verbatim>\<open>ip\<close> is imported without type declarations; a call may return a boolean
  or throw. A call is therefore a value of \<open>error + bool\<close>, and the JavaScript operator
  \<^verbatim>\<open>||\<close> evaluates its right operand only when the left one returned \<open>false\<close>.
\<close>

datatype error = Thrown string

subsection \<open>\<open>compare\<close> of the TypeScript module (index.ts, lines 221 to 269)\<close>

text \<open>
  The call of \<open>log.debug\<close> in both functions writes the compared values to the diagnostic
  log and has no part in the returned value; it is left out.
\<close>

definition userAgents ::
  "(string \<Rightarrow> ('c, 'o, 'b, 'r) IResult_scheme) \<Rightarrow> string \<Rightarrow> string \<Rightarrow> bool" where
  "userAgents UserAgentParser request_user_agent session_user_agent =
     (let request_ua = UserAgentParser request_user_agent;
          session_ua = UserAgentParser session_user_agent
      in if cpu.architecture (cpu request_ua) \<noteq> cpu.architecture (cpu session_ua)
            \<or> os.name (os request_ua) \<noteq> os.name (os session_ua)
            \<or> browser.name (browser request_ua) \<noteq> browser.name (browser session_ua)
         then False
         else True)"

definition ipAddresses ::
  "(string \<Rightarrow> error + bool) \<Rightarrow> (string \<Rightarrow> string \<Rightarrow> error + bool)
     \<Rightarrow> string \<Rightarrow> string \<Rightarrow> error + bool" where
  "ipAddresses isPrivate isEqual request_ip_address session_ip_address =
     (case isPrivate session_ip_address of
        Inl e \<Rightarrow> Inl e
      | Inr True \<Rightarrow> Inr True
      | Inr False \<Rightarrow> isEqual request_ip_address session_ip_address)"

subsection \<open>\<open>compare\<close> of the legacy JavaScript module (lines 440 to 480)\<close>

definition legacy_userAgents ::
  "(string \<Rightarrow> ('c, 'o, 'b, 'r) IResult_scheme) \<Rightarrow> string \<Rightarrow> string \<Rightarrow> bool" where
  "legacy_userAgents UserAgent request_user_agent session_user_agent =
     (let request_ua = UserAgent request_user_agent;
          session_ua = UserAgent session_user_agent
      in if cpu.architecture (cpu request_ua) \<noteq> cpu.architecture (cpu session_ua)
            \<or> os.name (os request_ua) \<noteq> os.name (os session_ua)
            \<or> browser.name (browser request_ua) \<noteq> browser.name (browser session_ua)
         then False
         else True)"

definition legacy_ipAddresses ::
  "(string \<Rightarrow> error + bool) \<Rightarrow> (string \<Rightarrow> string \<Rightarrow> error + bool)
     \<Rightarrow> string \<Rightarrow> string \<Rightarrow> error + bool" where
  "legacy_ipAddresses isPrivate isEqual request_ip_address session_ip_address =
     (case isPrivate session_ip_address of
        Inl e \<Rightarrow> Inl e
      | Inr True \<Rightarrow> Inr True
      | Inr False \<Rightarrow> isEqual request_ip_address session_ip_address)"

subsection \<open>The address package\<close>

text \<open>
  Modelled from the spec: the functions \<open>isPrivate\<close> and \<open>isEqual\<close> of the package
  \<^verbatim>\<open>ip\<close>, whose source is not in the repository. The spec describes them as follows: an
  address is private when it lies in a reserved, non-globally-routable range (the RFC 1918
  blocks \<open>10.0.0.0/8\<close>, \<open>172.16.0.0/12\<close>, \<open>192.168.0.0/16\<close>, loopback \<open>127.0.0.0/8\<close>,
  link-local, and the IPv6 equivalents); two addresses are equal when they are the same
  address after normalization, so that compressed IPv6 forms and leading zeros in IPv4
  octets make no difference; a malformed string is neither private nor equal to anything,
  and nothing is thrown.

  An address is kept as its numeric value: 32 bits for IPv4, 128 bits for IPv6.
\<close>

datatype ip_address = IPv4 nat | IPv6 nat

fun split_on :: "char \<Rightarrow> string \<Rightarrow> string list" where
  "split_on sep [] = [[]]"
| "split_on sep (c # cs) =
     (if c = sep then [] # split_on sep cs
      else (case split_on sep cs of [] \<Rightarrow> [[c]] | w # ws \<Rightarrow> (c # w) # ws))"

definition digit_of :: "char \<Rightarrow> nat option" where
  "digit_of c =
     (let n = (of_char c :: nat) in
      if 48 \<le> n \<and> n \<le> 57 then Some (n - 48)
      else if 97 \<le> n \<and> n \<le> 102 then Some (n - 87)
      else if 65 \<le> n \<and> n \<le> 70 then Some (n - 55)
      else None)"

text \<open>A field of at most \<open>width\<close> digits in the given base, at least one.\<close>

definition number_of :: "nat \<Rightarrow> nat \<Rightarrow> string \<Rightarrow> nat option" where
  "number_of base width s =
     (case those (map digit_of s) of
        None \<Rightarrow> None
      | Some ds \<Rightarrow>
          if s \<noteq> [] \<and> length s \<le> width \<and> (\<forall>d \<in> set ds. d < base)
          then Some (foldl (\<lambda>acc d. acc * base + d) 0 ds)
          else None)"

definition ipv4 :: "nat \<Rightarrow> nat \<Rightarrow> nat \<Rightarrow> nat \<Rightarrow> nat" where
  "ipv4 a b c d = ((a * 256 + b) * 256 + c) * 256 + d"

text \<open>Dotted decimal: four octets, each at most 255; leading zeros are read as decimal.\<close>

definition parse_ipv4 :: "string \<Rightarrow> nat option" where
  "parse_ipv4 s =
     (case map (number_of 10 3) (split_on CHR ''.'' s) of
        [Some a, Some b, Some c, Some d] \<Rightarrow>
          if a \<le> 255 \<and> b \<le> 255 \<and> c \<le> 255 \<and> d \<le> 255
          then Some (ipv4 a b c d)
          else None
      | _ \<Rightarrow> None)"

text \<open>The text before and after the first \<open>::\<close> of an IPv6 address, if it has one.\<close>

fun split_compressed :: "string \<Rightarrow> (string \<times> string) option" where
  "split_compressed (c # d # cs) =
     (if c = CHR '':'' \<and> d = CHR '':'' then Some ([], cs)
      else map_option (\<lambda>(l, r). (c # l, r)) (split_compressed (d # cs)))"
| "split_compressed _ = None"

definition groups_of :: "string \<Rightarrow> nat list option" where
  "groups_of s =
     (if s = [] then Some [] else those (map (number_of 16 4) (split_on CHR '':'' s)))"

definition ipv6 :: "nat list \<Rightarrow> nat" where
  "ipv6 gs = foldl (\<lambda>acc g. acc * 65536 + g) 0 gs"

text \<open>
  Eight groups of hexadecimal digits, or fewer with one \<open>::\<close> that stands for the groups of
  zeros that are missing.
\<close>

definition parse_ipv6 :: "string \<Rightarrow> nat option" where
  "parse_ipv6 s =
     (case split_compressed s of
        None \<Rightarrow>
          (case groups_of s of
             Some gs \<Rightarrow> if length gs = 8 then Some (ipv6 gs) else None
           | None \<Rightarrow> None)
      | Some (l, r) \<Rightarrow>
          (case (groups_of l, groups_of r) of
             (Some ls, Some rs) \<Rightarrow>
               if length ls + length rs \<le> 7
               then Some (ipv6 (ls @ drop (length ls + length rs) [0, 0, 0, 0, 0, 0, 0, 0] @ rs))
               else None
           | _ \<Rightarrow> None))"

definition parse_ip :: "string \<Rightarrow> ip_address option" where
  "parse_ip s =
     (case parse_ipv4 s of
        Some v \<Rightarrow> Some (IPv4 v)
      | None \<Rightarrow> map_option IPv6 (parse_ipv6 s))"

text \<open>\<open>in_block bits addr net len\<close>: the address lies in the block \<open>net/len\<close>.\<close>

definition in_block :: "nat \<Rightarrow> nat \<Rightarrow> nat \<Rightarrow> nat \<Rightarrow> bool" where
  "in_block bits addr net len = (addr div 2 ^ (bits - len) = net div 2 ^ (bits - len))"

definition private_address :: "ip_address \<Rightarrow> bool" where
  "private_address a =
     (case a of
        IPv4 v \<Rightarrow>
          in_block 32 v (ipv4 10 0 0 0) 8 \<or> in_block 32 v (ipv4 172 16 0 0) 12
          \<or> in_block 32 v (ipv4 192 168 0 0) 16 \<or> in_block 32 v (ipv4 127 0 0 0) 8
          \<or> in_block 32 v (ipv4 169 254 0 0) 16
      | IPv6 v \<Rightarrow>
          v = ipv6 [0, 0, 0, 0, 0, 0, 0, 1]
          \<or> in_block 128 v (ipv6 [0xfe80, 0, 0, 0, 0, 0, 0, 0]) 10
          \<or> in_block 128 v (ipv6 [0xfc00, 0, 0, 0, 0, 0, 0, 0]) 7)"

definition ip_isPrivate :: "string \<Rightarrow> error + bool" where
  "ip_isPrivate addr =
     Inr (case parse_ip addr of None \<Rightarrow> False | Some a \<Rightarrow> private_address a)"

definition ip_isEqual :: "string \<Rightarrow> string \<Rightarrow> error + bool" where
  "ip_isEqual a b =
     Inr (case (parse_ip a, parse_ip b) of (Some x, Some y) \<Rightarrow> x = y | _ \<Rightarrow> False)"

text \<open>The matcher of the spec: \<open>compare.ipAddresses\<close> run with this package.\<close>

definition ipAddressesMatch :: "string \<Rightarrow> string \<Rightarrow> error + bool" where
  "ipAddressesMatch request_ip session_ip =
     ipAddresses ip_isPrivate ip_isEqual request_ip session_ip"

subsection \<open>A user-agent parser\<close>

text \<open>
  Modelled from the spec: the parser of \<^verbatim>\<open>ua-parser-js\<close>, whose source is not in the
  repository. The spec fixes only that parsing is a best-effort reading of arbitrary text
  that never fails and leaves what it does not recognise unknown. The parser below looks
  for the tokens of the user agents in the repository's comparison tests; it also reads
  the browser version, an attribute that the comparison does not look at. The theorems
  hold for every parser; this one is their concrete input.
\<close>

fun startsWith :: "string \<Rightarrow> string \<Rightarrow> bool" where
  "startsWith s [] = True"
| "startsWith [] (t # ts) = False"
| "startsWith (c # cs) (t # ts) = (c = t \<and> startsWith cs ts)"

fun has_token :: "string \<Rightarrow> string \<Rightarrow> bool" where
  "has_token [] t = (t = [])"
| "has_token (c # cs) t = (startsWith (c # cs) t \<or> has_token cs t)"

text \<open>The text between the first occurrence of a token and the next space.\<close>

fun following :: "string \<Rightarrow> string \<Rightarrow> string option" where
  "following [] t = None"
| "following (c # cs) t =
     (if startsWith (c # cs) t
      then Some (takeWhile (\<lambda>x. x \<noteq> CHR '' '') (drop (length t) (c # cs)))
      else following cs t)"

record versioned = browser +
  version :: "string option"

definition token_parser :: "string \<Rightarrow> (unit, unit, unit versioned_ext) IResult" where
  "token_parser ua =
     \<lparr> cpu = \<lparr> architecture =
           (if has_token ua ''x86_64'' \<or> has_token ua ''x64'' then Some ''amd64'' else None) \<rparr>,
       os = \<lparr> os.name =
           (if has_token ua ''Windows'' then Some ''Windows''
            else if has_token ua ''Mac OS X'' then Some ''Mac OS''
            else if has_token ua ''Linux'' then Some ''Linux''
            else None) \<rparr>,
       browser =
           (if has_token ua ''Firefox/''
            then \<lparr> browser.name = Some ''Firefox'', version = following ua ''Firefox/'' \<rparr>
            else if has_token ua ''Chrome/''
            then \<lparr> browser.name = Some ''Chrome'', version = following ua ''Chrome/'' \<rparr>
            else \<lparr> browser.name = None, version = None \<rparr>) \<rparr>"

text \<open>The user agents of the comparison tests, and the first of them after an update.\<close>

definition chrome_linux_ua :: string where
  "chrome_linux_ua = ''Mozilla/5.0 (X11; Linux x86_64) AppleWebKit/537.36 (KHTML, like Gecko) Chrome/81.0.4044.129 Safari/537.36''"

definition chrome_windows_ua :: string where
  "chrome_windows_ua = ''Mozilla/5.0 (Windows NT 10.0; Win64; x64) AppleWebKit/537.36 (KHTML, like Gecko) Chrome/81.0.4044.129 Safari/537.36''"

definition firefox_linux_ua :: string where
  "firefox_linux_ua = ''Mozilla/5.0 (X11; Linux x86_64; rv:75.0) Gecko/20100101 Firefox/75.0''"

definition chrome_mac_ua :: string where
  "chrome_mac_ua = ''Mozilla/5.0 (Macintosh; Intel Mac OS X 10_15_4) AppleWebKit/537.36 (KHTML, like Gecko) Chrome/81.0.4044.129 Safari/537.36''"

definition chrome_linux_ua_updated :: string where
  "chrome_linux_ua_updated = ''Mozilla/5.0 (X11; Linux x86_64) AppleWebKit/537.36 (KHTML, like Gecko) Chrome/90.0.4430.212 Safari/537.36''"

subsection \<open>How the two modules bind the address package\<close>

text \<open>
  The legacy module binds \<open>ip\<close> with \<^verbatim>\<open>require('ip')\<close> (line 283): the object
  \<open>module.exports\<close> of the package. The TypeScript module binds it with
  \<^verbatim>\<open>import * as ip from 'ip'\<close> (line 6) and is an ES module (it reads \<open>import.meta.url\<close>,
  line 11): there \<open>ip\<close> is the namespace object of the import. The namespace of a CommonJS
  package has the member \<open>default\<close>, which is \<open>module.exports\<close>, and one member for each
  export name that the loader finds in the text of the package; any other name is not a
  member, reading it gives \<open>undefined\<close>, and calling \<open>undefined\<close> throws a \<open>TypeError\<close>.
  The set of names that the loader finds is a parameter.
\<close>

record ip_exports =
  exports_isPrivate :: "string \<Rightarrow> error + bool"
  exports_isEqual :: "string \<Rightarrow> string \<Rightarrow> error + bool"

record ip_namespace =
  ns_default :: ip_exports
  ns_isPrivate :: "(string \<Rightarrow> error + bool) option"
  ns_isEqual :: "(string \<Rightarrow> string \<Rightarrow> error + bool) option"

definition import_namespace :: "string set \<Rightarrow> ip_exports \<Rightarrow> ip_namespace" where
  "import_namespace found exports =
     \<lparr> ns_default = exports,
       ns_isPrivate =
         (if ''isPrivate'' \<in> found then Some (exports_isPrivate exports) else None),
       ns_isEqual =
         (if ''isEqual'' \<in> found then Some (exports_isEqual exports) else None) \<rparr>"

text \<open>
  \<open>compare.ipAddresses\<close> of each module, called with the module's own \<open>ip\<close>: the
  TypeScript function reads \<open>ip.isPrivate\<close> and \<open>ip.isEqual\<close> from the namespace, the
  legacy function from \<open>module.exports\<close>.
\<close>

definition compare_ipAddresses :: "ip_namespace \<Rightarrow> string \<Rightarrow> string \<Rightarrow> error + bool" where
  "compare_ipAddresses ip request_ip_address session_ip_address =
     ipAddresses
       (case ns_isPrivate ip of
          Some f \<Rightarrow> f
        | None \<Rightarrow> (\<lambda>addr. Inl (Thrown ''TypeError: ip.isPrivate is not a function'')))
       (case ns_isEqual ip of
          Some f \<Rightarrow> f
        | None \<Rightarrow> (\<lambda>a b. Inl (Thrown ''TypeError: ip.isEqual is not a function'')))
       request_ip_address session_ip_address"

definition legacy_compare_ipAddresses ::
  "ip_exports \<Rightarrow> string \<Rightarrow> string \<Rightarrow> error + bool" where
  "legacy_compare_ipAddresses ip request_ip_address session_ip_address =
     legacy_ipAddresses (exports_isPrivate ip) (exports_isEqual ip)
       request_ip_address session_ip_address"


section \<open>Evaluations shared by the examples\<close>

lemmas ip_package_defs =
  ip_isPrivate_def ip_isEqual_def parse_ip_def parse_ipv4_def parse_ipv6_def groups_of_def
  number_of_def digit_of_def private_address_def in_block_def ipv4_def ipv6_def

lemma parse_ip_examples:
  "parse_ip ''8.8.8.8'' = Some (IPv4 (ipv4 8 8 8 8))"
  "parse_ip ''95.107.167.200'' = Some (IPv4 (ipv4 95 107 167 200))"
  "parse_ip ''192.168.1.1'' = Some (IPv4 (ipv4 192 168 1 1))"
  "parse_ip ''10.0.0.1'' = Some (IPv4 (ipv4 10 0 0 1))"
  "parse_ip ''172.16.0.1'' = Some (IPv4 (ipv4 172 16 0 1))"
  "parse_ip ''127.0.0.1'' = Some (IPv4 (ipv4 127 0 0 1))"
  "parse_ip ''not an address'' = None"
  "parse_ip [] = None"
  by (simp_all add: ip_package_defs)

lemma parse_ipv4_examples:
  "parse_ipv4 ''192.168.1.1'' = Some (ipv4 192 168 1 1)"
  "parse_ipv4 ''10.0.0.1'' = Some (ipv4 10 0 0 1)"
  "parse_ipv4 ''172.16.0.1'' = Some (ipv4 172 16 0 1)"
  "parse_ipv4 ''127.0.0.1'' = Some (ipv4 127 0 0 1)"
  by (simp_all add: ip_package_defs)

lemma ip_isPrivate_examples:
  "ip_isPrivate ''192.168.1.1'' = Inr True"
  "ip_isPrivate ''10.0.0.1'' = Inr True"
  "ip_isPrivate ''127.0.0.1'' = Inr True"
  "ip_isPrivate ''fe80::1'' = Inr True"
  "ip_isPrivate ''8.8.8.8'' = Inr False"
  "ip_isPrivate ''95.107.167.200'' = Inr False"
  "ip_isPrivate ''2001:db8::1'' = Inr False"
  by (simp_all add: ip_package_defs)

lemma ip_isEqual_examples:
  "ip_isEqual ''95.107.167.200'' ''95.107.167.200'' = Inr True"
  "ip_isEqual ''95.107.167.200'' ''8.8.8.8'' = Inr False"
  "ip_isEqual ''192.168.1.1'' ''8.8.8.8'' = Inr False"
  "ip_isEqual ''008.8.08.8'' ''8.8.8.8'' = Inr True"
  "ip_isEqual ''2001:0db8:0:0:0:0:0:1'' ''2001:db8::1'' = Inr True"
  by (simp_all add: ip_package_defs)

lemma token_parser_examples:
  "token_parser chrome_linux_ua =
     \<lparr> cpu = \<lparr> architecture = Some ''amd64'' \<rparr>, os = \<lparr> os.name = Some ''Linux'' \<rparr>,
       browser = \<lparr> browser.name = Some ''Chrome'', version = Some ''81.0.4044.129'' \<rparr> \<rparr>"
  "token_parser chrome_linux_ua_updated =
     \<lparr> cpu = \<lparr> architecture = Some ''amd64'' \<rparr>, os = \<lparr> os.name = Some ''Linux'' \<rparr>,
       browser = \<lparr> browser.name = Some ''Chrome'', version = Some ''90.0.4430.212'' \<rparr> \<rparr>"
  "token_parser chrome_windows_ua =
     \<lparr> cpu = \<lparr> architecture = Some ''amd64'' \<rparr>, os = \<lparr> os.name = Some ''Windows'' \<rparr>,
       browser = \<lparr> browser.name = Some ''Chrome'', version = Some ''81.0.4044.129'' \<rparr> \<rparr>"
  "token_parser firefox_linux_ua =
     \<lparr> cpu = \<lparr> architecture = Some ''amd64'' \<rparr>, os = \<lparr> os.name = Some ''Linux'' \<rparr>,
       browser = \<lparr> browser.name = Some ''Firefox'', version = Some ''75.0'' \<rparr> \<rparr>"
  "token_parser chrome_mac_ua =
     \<lparr> cpu = \<lparr> architecture = None \<rparr>, os = \<lparr> os.name = Some ''Mac OS'' \<rparr>,
       browser = \<lparr> browser.name = Some ''Chrome'', version = Some ''81.0.4044.129'' \<rparr> \<rparr>"
  by (simp_all add: token_parser_def chrome_linux_ua_def chrome_linux_ua_updated_def
        chrome_windows_ua_def firefox_linux_ua_def chrome_mac_ua_def)

lemma token_parser_unknown:
  "token_parser [] =
     \<lparr> cpu = \<lparr> architecture = None \<rparr>, os = \<lparr> os.name = None \<rparr>,
       browser = \<lparr> browser.name = None, version = None \<rparr> \<rparr>"
  "token_parser ''curl/7.68.0'' =
     \<lparr> cpu = \<lparr> architecture = None \<rparr>, os = \<lparr> os.name = None \<rparr>,
       browser = \<lparr> browser.name = None, version = None \<rparr> \<rparr>"
  by (simp_all add: token_parser_def)

section \<open>What the wrapper adds to the address package\<close>

text \<open>
  \<open>compare.ipAddresses\<close> has no handler of its own: it returns when the calls it makes
  return, and an exception of either call is the exception of the comparison.
\<close>

lemma ipAddresses_returns:
  "isPrivate session_ip = Inr p \<Longrightarrow> isEqual request_ip session_ip = Inr q \<Longrightarrow>
     ipAddresses isPrivate isEqual request_ip session_ip = Inr (p \<or> q)"
  by (cases p) (simp_all add: ipAddresses_def)

lemma ipAddresses_throws_isPrivate:
  "isPrivate session_ip = Inl e \<Longrightarrow>
     ipAddresses isPrivate isEqual request_ip session_ip = Inl e"
  by (simp add: ipAddresses_def)

lemma ipAddresses_throws_isEqual:
  "isPrivate session_ip = Inr False \<Longrightarrow> isEqual request_ip session_ip = Inl e \<Longrightarrow>
     ipAddresses isPrivate isEqual request_ip session_ip = Inl e"
  by (simp add: ipAddresses_def)

text \<open>With the package of the spec, which never throws, the comparison always returns.\<close>

lemma ipAddressesMatch_eq:
  "ipAddressesMatch request_ip session_ip =
     Inr ((case parse_ip session_ip of None \<Rightarrow> False | Some a \<Rightarrow> private_address a)
          \<or> (case (parse_ip request_ip, parse_ip session_ip) of
                (Some x, Some y) \<Rightarrow> x = y
              | _ \<Rightarrow> False))"
  by (simp add: ipAddressesMatch_def ipAddresses_def ip_isPrivate_def ip_isEqual_def
        split: bool.split)

text \<open>The blocks read on the octets of an IPv4 address.\<close>

lemma ipv4_div:
  assumes "b < 256" "c < 256" "d < 256"
  shows "ipv4 a b c d div 2 ^ 24 = a" and "ipv4 a b c d div 2 ^ 16 = a * 256 + b"
  using assms by (simp_all add: ipv4_def)

lemma ipv4_div20:
  assumes "b < 256" "c < 256" "d < 256"
  shows "ipv4 a b c d div 2 ^ 20 = a * 16 + b div 16"
proof -
  have "ipv4 a b c d div 2 ^ 20 = (ipv4 a b c d div 2 ^ 16) div 2 ^ 4"
    unfolding div_mult2_eq [symmetric] by simp
  also have "\<dots> = (a * 256 + b) div 16"
    using ipv4_div(2) [OF assms, of a] by simp
  also have "\<dots> = a * 16 + b div 16"
    by simp
  finally show ?thesis .
qed

lemma block8_octets:
  assumes "b < 256" "c < 256" "d < 256"
  shows "in_block 32 (ipv4 a b c d) (ipv4 n 0 0 0) 8 \<longleftrightarrow> a = n"
  using ipv4_div(1) [OF assms, of a] ipv4_div(1) [of 0 0 0 n]
  by (simp add: in_block_def)

lemma two_octets_eq:
  assumes "(b::nat) < 256" "m < 256"
  shows "a * 256 + b = n * 256 + m \<longleftrightarrow> a = n \<and> b = m"
proof
  assume eq: "a * 256 + b = n * 256 + m"
  then have "(a * 256 + b) div 256 = (n * 256 + m) div 256"
    by simp
  with assms have "a = n"
    by simp
  with eq show "a = n \<and> b = m"
    by simp
qed simp

lemma block16_octets:
  assumes "b < 256" "c < 256" "d < 256" "m < 256"
  shows "in_block 32 (ipv4 a b c d) (ipv4 n m 0 0) 16 \<longleftrightarrow> a = n \<and> b = m"
proof -
  have "in_block 32 (ipv4 a b c d) (ipv4 n m 0 0) 16 \<longleftrightarrow> a * 256 + b = n * 256 + m"
    using ipv4_div(2) [OF assms(1-3), of a] ipv4_div(2) [of m 0 0 n] assms(4)
    by (simp add: in_block_def)
  then show ?thesis
    using two_octets_eq [OF assms(1,4)] by simp
qed

lemma block12_octets:
  assumes "b < 256" "c < 256" "d < 256"
  shows "in_block 32 (ipv4 a b c d) (ipv4 172 16 0 0) 12 \<longleftrightarrow> a = 172 \<and> 16 \<le> b \<and> b \<le> 31"
proof -
  have q: "b div 16 < 16"
    using assms(1) by simp
  have "in_block 32 (ipv4 a b c d) (ipv4 172 16 0 0) 12 \<longleftrightarrow> a * 16 + b div 16 = 172 * 16 + 1"
    using ipv4_div20 [OF assms, of a] ipv4_div20 [of 16 0 0 172]
    by (simp add: in_block_def)
  also have "\<dots> \<longleftrightarrow> a = 172 \<and> b div 16 = 1"
  proof
    assume eq: "a * 16 + b div 16 = 172 * 16 + 1"
    then have "(a * 16 + b div 16) div 16 = (172 * 16 + 1) div (16::nat)"
      by simp
    with q have "a = 172"
      by simp
    with eq show "a = 172 \<and> b div 16 = 1"
      by simp
  qed simp
  also have "b div 16 = 1 \<longleftrightarrow> 16 \<le> b \<and> b \<le> 31"
    by presburger
  finally show ?thesis .
qed

lemma private_ipv4_octets:
  assumes "b < 256" "c < 256" "d < 256"
  shows "private_address (IPv4 (ipv4 a b c d)) \<longleftrightarrow>
     a = 10 \<or> (a = 172 \<and> 16 \<le> b \<and> b \<le> 31) \<or> (a = 192 \<and> b = 168) \<or> a = 127
     \<or> (a = 169 \<and> b = 254)"
  using block8_octets [OF assms] block12_octets [OF assms] block16_octets [OF assms]
  by (simp add: private_address_def)

section \<open>The user-agent matcher\<close>

text \<open>
  C2. \<open>compare.userAgents\<close> answers true exactly when the two parsed results have the same
  cpu architecture, the same OS name and the same browser name, compared as strings
  (unknown equals unknown). No other attribute of the parsed results has a part in the
  answer: a second parser that reports the same three attributes for the two strings,
  whatever else it reports, leads to the same answer.
\<close>

theorem userAgents_iff:
  "(userAgents P a b \<longleftrightarrow>
      cpu.architecture (cpu (P a)) = cpu.architecture (cpu (P b))
      \<and> os.name (os (P a)) = os.name (os (P b))
      \<and> browser.name (browser (P a)) = browser.name (browser (P b)))
   \<and> (cpu.architecture (cpu (Q a)) = cpu.architecture (cpu (P a))
      \<and> cpu.architecture (cpu (Q b)) = cpu.architecture (cpu (P b))
      \<and> os.name (os (Q a)) = os.name (os (P a))
      \<and> os.name (os (Q b)) = os.name (os (P b))
      \<and> browser.name (browser (Q a)) = browser.name (browser (P a))
      \<and> browser.name (browser (Q b)) = browser.name (browser (P b))
      \<longrightarrow> userAgents Q a b = userAgents P a b)"
  by (simp add: userAgents_def Let_def)

text \<open>
  Chrome on Linux against Firefox on Linux: the browser names differ and the answer is
  false, also for the parser that reports no version at all.
\<close>

theorem userAgents_iff_witness:
  "browser.name (browser (token_parser chrome_linux_ua)) = Some ''Chrome''
   \<and> browser.name (browser (token_parser firefox_linux_ua)) = Some ''Firefox''
   \<and> \<not> userAgents token_parser chrome_linux_ua firefox_linux_ua
   \<and> \<not> userAgents
          (\<lambda>ua. \<lparr> cpu = cpu (token_parser ua), os = os (token_parser ua),
                  browser = \<lparr> browser.name = browser.name (browser (token_parser ua)) \<rparr> \<rparr>)
          chrome_linux_ua firefox_linux_ua"
  using userAgents_iff [of token_parser chrome_linux_ua firefox_linux_ua
      "\<lambda>ua. \<lparr> cpu = cpu (token_parser ua), os = os (token_parser ua),
              browser = \<lparr> browser.name = browser.name (browser (token_parser ua)) \<rparr> \<rparr>"]
  by (simp add: token_parser_examples)

text \<open>
  C6. Two user agents whose parsed cpu architecture, OS name and browser name are the same
  match, whatever their version numbers are: the versions are not looked at.
\<close>

theorem userAgents_ignores_versions:
  assumes "cpu.architecture (cpu (P a)) = cpu.architecture (cpu (P b))"
    and "os.name (os (P a)) = os.name (os (P b))"
    and "browser.name (browser (P a)) = browser.name (browser (P b))"
  shows "userAgents P a b"
  using assms by (simp add: userAgents_def Let_def)

text \<open>Chrome 81 and Chrome 90 on the same Linux machine.\<close>

theorem userAgents_ignores_versions_witness:
  "version (browser (token_parser chrome_linux_ua)) = Some ''81.0.4044.129''
   \<and> version (browser (token_parser chrome_linux_ua_updated)) = Some ''90.0.4430.212''
   \<and> cpu.architecture (cpu (token_parser chrome_linux_ua))
       = cpu.architecture (cpu (token_parser chrome_linux_ua_updated))
   \<and> os.name (os (token_parser chrome_linux_ua))
       = os.name (os (token_parser chrome_linux_ua_updated))
   \<and> browser.name (browser (token_parser chrome_linux_ua))
       = browser.name (browser (token_parser chrome_linux_ua_updated))
   \<and> userAgents token_parser chrome_linux_ua chrome_linux_ua_updated"
proof -
  have arch: "cpu.architecture (cpu (token_parser chrome_linux_ua))
      = cpu.architecture (cpu (token_parser chrome_linux_ua_updated))"
    by (simp add: token_parser_examples)
  have os: "os.name (os (token_parser chrome_linux_ua))
      = os.name (os (token_parser chrome_linux_ua_updated))"
    by (simp add: token_parser_examples)
  have br: "browser.name (browser (token_parser chrome_linux_ua))
      = browser.name (browser (token_parser chrome_linux_ua_updated))"
    by (simp add: token_parser_examples)
  have "userAgents token_parser chrome_linux_ua chrome_linux_ua_updated"
    by (rule userAgents_ignores_versions [OF arch os br])
  with arch os br show ?thesis
    by (simp add: token_parser_examples)
qed

text \<open>
  C7. The user-agent matcher is symmetric: exchanging the two strings does not change the
  answer.
\<close>

theorem userAgents_symmetric:
  "userAgents P a b = userAgents P b a"
  by (auto simp add: userAgents_def Let_def)

theorem userAgents_symmetric_witness:
  "userAgents token_parser chrome_linux_ua chrome_windows_ua
     = userAgents token_parser chrome_windows_ua chrome_linux_ua
   \<and> userAgents token_parser chrome_linux_ua_updated chrome_linux_ua
     = userAgents token_parser chrome_linux_ua chrome_linux_ua_updated"
  using userAgents_symmetric [of token_parser chrome_linux_ua chrome_windows_ua]
    userAgents_symmetric [of token_parser chrome_linux_ua_updated chrome_linux_ua]
  by simp

text \<open>
  C8. Two user agents of which the parser recognises nothing (cpu architecture, OS name and
  browser name all unknown) match.
\<close>

theorem userAgents_unparseable:
  assumes "cpu.architecture (cpu (P a)) = None" "os.name (os (P a)) = None"
    "browser.name (browser (P a)) = None"
    and "cpu.architecture (cpu (P b)) = None" "os.name (os (P b)) = None"
    "browser.name (browser (P b)) = None"
  shows "userAgents P a b"
  using assms by (simp add: userAgents_def Let_def)

theorem userAgents_unparseable_witness:
  "cpu.architecture (cpu (token_parser [])) = None
   \<and> os.name (os (token_parser [])) = None
   \<and> browser.name (browser (token_parser [])) = None
   \<and> cpu.architecture (cpu (token_parser ''curl/7.68.0'')) = None
   \<and> os.name (os (token_parser ''curl/7.68.0'')) = None
   \<and> browser.name (browser (token_parser ''curl/7.68.0'')) = None
   \<and> userAgents token_parser [] ''curl/7.68.0''"
  using userAgents_unparseable [of token_parser "[]" "''curl/7.68.0''"]
  by (simp add: token_parser_unknown)

section \<open>The address matcher\<close>

text \<open>
  C1. When the session address is classified as private, \<open>compare.ipAddresses\<close> returns true
  whatever the request address is; when it is classified as not private, the comparison
  returns what \<open>isEqual\<close>, the package's equality of normalized addresses, returns for the
  two addresses. The classification is asked of the session address only: a classifier
  that agrees on the session address gives the same result, whatever it says of the
  request address.
\<close>

theorem ipAddresses_policy:
  "(isPrivate session_ip = Inr True \<longrightarrow>
      ipAddresses isPrivate isEqual request_ip session_ip = Inr True)
   \<and> (isPrivate session_ip = Inr False \<longrightarrow>
      ipAddresses isPrivate isEqual request_ip session_ip = isEqual request_ip session_ip)
   \<and> (isPrivate' session_ip = isPrivate session_ip \<longrightarrow>
      ipAddresses isPrivate' isEqual request_ip session_ip
        = ipAddresses isPrivate isEqual request_ip session_ip)"
  by (simp add: ipAddresses_def)

text \<open>
  With the package of the spec: a private session address, two equal public addresses, two
  distinct public addresses, two spellings of one address, and a classifier that calls
  every address but \<open>8.8.8.8\<close> private.
\<close>

theorem ipAddresses_policy_witness:
  "ip_isPrivate ''192.168.1.1'' = Inr True
   \<and> ipAddresses ip_isPrivate ip_isEqual ''8.8.8.8'' ''192.168.1.1'' = Inr True
   \<and> ip_isPrivate ''95.107.167.200'' = Inr False
   \<and> ipAddresses ip_isPrivate ip_isEqual ''95.107.167.200'' ''95.107.167.200'' = Inr True
   \<and> ip_isPrivate ''8.8.8.8'' = Inr False
   \<and> ipAddresses ip_isPrivate ip_isEqual ''95.107.167.200'' ''8.8.8.8'' = Inr False
   \<and> ipAddresses ip_isPrivate ip_isEqual ''008.8.08.8'' ''8.8.8.8'' = Inr True
   \<and> ip_isPrivate ''2001:db8::1'' = Inr False
   \<and> ipAddresses ip_isPrivate ip_isEqual ''2001:0db8:0:0:0:0:0:1'' ''2001:db8::1'' = Inr True
   \<and> ipAddresses (\<lambda>a. Inr (a \<noteq> ''8.8.8.8'')) ip_isEqual ''192.168.1.1'' ''8.8.8.8''
       = Inr False"
  using ipAddresses_policy [of ip_isPrivate "''192.168.1.1''" ip_isEqual "''8.8.8.8''"]
    ipAddresses_policy [of ip_isPrivate "''95.107.167.200''" ip_isEqual "''95.107.167.200''"]
    ipAddresses_policy [of ip_isPrivate "''8.8.8.8''" ip_isEqual "''95.107.167.200''"]
    ipAddresses_policy [of ip_isPrivate "''8.8.8.8''" ip_isEqual "''008.8.08.8''"]
    ipAddresses_policy [of ip_isPrivate "''2001:db8::1''" ip_isEqual "''2001:0db8:0:0:0:0:0:1''"]
    ipAddresses_policy [of ip_isPrivate "''8.8.8.8''" ip_isEqual "''192.168.1.1''"
      "\<lambda>a. Inr (a \<noteq> ''8.8.8.8'')"]
  by (simp add: ip_isPrivate_examples ip_isEqual_examples)

text \<open>
  C4. For every syntactically valid request address and every session address in
  \<open>10.0.0.0/8\<close>, \<open>172.16.0.0/12\<close>, \<open>192.168.0.0/16\<close> or \<open>127.0.0.0/8\<close>, the matcher returns
  true.
\<close>

theorem ipAddressesMatch_private_blocks:
  assumes "parse_ip x \<noteq> None"
    and "parse_ipv4 private_ip = Some v"
    and "in_block 32 v (ipv4 10 0 0 0) 8 \<or> in_block 32 v (ipv4 172 16 0 0) 12
         \<or> in_block 32 v (ipv4 192 168 0 0) 16 \<or> in_block 32 v (ipv4 127 0 0 0) 8"
  shows "ipAddressesMatch x private_ip = Inr True"
  using assms
  by (auto simp add: ipAddressesMatch_def ipAddresses_def ip_isPrivate_def parse_ip_def
        private_address_def)

text \<open>One session address of each block, the request coming from \<open>8.8.8.8\<close>.\<close>

theorem ipAddressesMatch_private_blocks_witness:
  "parse_ip ''8.8.8.8'' \<noteq> None
   \<and> parse_ipv4 ''192.168.1.1'' = Some (ipv4 192 168 1 1)
   \<and> in_block 32 (ipv4 192 168 1 1) (ipv4 192 168 0 0) 16
   \<and> ipAddressesMatch ''8.8.8.8'' ''192.168.1.1'' = Inr True
   \<and> parse_ipv4 ''10.0.0.1'' = Some (ipv4 10 0 0 1)
   \<and> in_block 32 (ipv4 10 0 0 1) (ipv4 10 0 0 0) 8
   \<and> ipAddressesMatch ''8.8.8.8'' ''10.0.0.1'' = Inr True
   \<and> parse_ipv4 ''172.16.0.1'' = Some (ipv4 172 16 0 1)
   \<and> in_block 32 (ipv4 172 16 0 1) (ipv4 172 16 0 0) 12
   \<and> ipAddressesMatch ''8.8.8.8'' ''172.16.0.1'' = Inr True
   \<and> parse_ipv4 ''127.0.0.1'' = Some (ipv4 127 0 0 1)
   \<and> in_block 32 (ipv4 127 0 0 1) (ipv4 127 0 0 0) 8
   \<and> ipAddressesMatch ''8.8.8.8'' ''127.0.0.1'' = Inr True"
proof -
  have x: "parse_ip ''8.8.8.8'' \<noteq> None"
    by (simp add: parse_ip_examples)
  have b192: "in_block 32 (ipv4 192 168 1 1) (ipv4 192 168 0 0) 16"
    and b10: "in_block 32 (ipv4 10 0 0 1) (ipv4 10 0 0 0) 8"
    and b172: "in_block 32 (ipv4 172 16 0 1) (ipv4 172 16 0 0) 12"
    and b127: "in_block 32 (ipv4 127 0 0 1) (ipv4 127 0 0 0) 8"
    by (simp_all add: in_block_def ipv4_def)
  have "ipAddressesMatch ''8.8.8.8'' ''192.168.1.1'' = Inr True"
    using b192 by (intro ipAddressesMatch_private_blocks [OF x parse_ipv4_examples(1)]) simp
  moreover have "ipAddressesMatch ''8.8.8.8'' ''10.0.0.1'' = Inr True"
    using b10 by (intro ipAddressesMatch_private_blocks [OF x parse_ipv4_examples(2)]) simp
  moreover have "ipAddressesMatch ''8.8.8.8'' ''172.16.0.1'' = Inr True"
    using b172 by (intro ipAddressesMatch_private_blocks [OF x parse_ipv4_examples(3)]) simp
  moreover have "ipAddressesMatch ''8.8.8.8'' ''127.0.0.1'' = Inr True"
    using b127 by (intro ipAddressesMatch_private_blocks [OF x parse_ipv4_examples(4)]) simp
  ultimately show ?thesis
    using x b192 b10 b172 b127 by (simp add: parse_ipv4_examples)
qed

text \<open>
  C5. The address matcher depends on the order of its arguments: a request from \<open>8.8.8.8\<close>
  matches a session created at \<open>192.168.1.1\<close>, a request from \<open>192.168.1.1\<close> does not match
  a session created at \<open>8.8.8.8\<close>.
\<close>

theorem ipAddressesMatch_order_dependent:
  "ipAddressesMatch ''8.8.8.8'' ''192.168.1.1'' = Inr True
   \<and> ipAddressesMatch ''192.168.1.1'' ''8.8.8.8'' = Inr False"
  by (simp add: ipAddressesMatch_def ipAddresses_def ip_isPrivate_examples ip_isEqual_examples)

text \<open>
  C9. When the session address is classified as private, \<open>compare.ipAddresses\<close> returns true
  for every request string, malformed and empty ones included: \<open>isEqual\<close> is not called, so
  that even a package whose \<open>isEqual\<close> throws on such a string makes no difference.
\<close>

theorem ipAddresses_private_session:
  assumes "isPrivate session_ip = Inr True"
  shows "ipAddresses isPrivate isEqual request_ip session_ip = Inr True"
  using assms by (simp add: ipAddresses_def)

text \<open>An empty and a malformed request, with an equality that throws on every call.\<close>

theorem ipAddresses_private_session_witness:
  "ip_isPrivate ''10.0.0.1'' = Inr True
   \<and> ipAddresses ip_isPrivate (\<lambda>a b. Inl (Thrown ''Invalid ip address'')) [] ''10.0.0.1''
       = Inr True
   \<and> ipAddresses ip_isPrivate (\<lambda>a b. Inl (Thrown ''Invalid ip address''))
         ''not an address'' ''10.0.0.1''
       = Inr True"
  using ipAddresses_private_session [of ip_isPrivate "''10.0.0.1''"
      "\<lambda>a b. Inl (Thrown ''Invalid ip address'')" "[]"]
    ipAddresses_private_session [of ip_isPrivate "''10.0.0.1''"
      "\<lambda>a b. Inl (Thrown ''Invalid ip address'')" "''not an address''"]
  by (simp add: ip_isPrivate_examples)

section \<open>The TypeScript module and the legacy module\<close>

text \<open>
  The bodies of the comparison functions are the same in the two modules: called with one
  parser and one pair of address functions they return the same value.
\<close>

lemma compare_bodies_equal:
  "userAgents P request_ua session_ua = legacy_userAgents P request_ua session_ua"
  "ipAddresses isPrivate isEqual request_ip session_ip
     = legacy_ipAddresses isPrivate isEqual request_ip session_ip"
  by (simp_all add: userAgents_def legacy_userAgents_def ipAddresses_def
        legacy_ipAddresses_def)

text \<open>
  The parser is one function in both modules: the default import of the TypeScript module
  and \<^verbatim>\<open>require\<close> of the legacy module both give \<open>module.exports\<close> of the parser's package.
  The address functions are the same when the namespace has them as members; when
  \<open>isPrivate\<close> is not a member, every call of the TypeScript function throws.
\<close>

lemma compare_ipAddresses_found:
  assumes "''isPrivate'' \<in> found" and "''isEqual'' \<in> found"
  shows "compare_ipAddresses (import_namespace found exports) request_ip session_ip
     = legacy_compare_ipAddresses exports request_ip session_ip"
  using assms
  by (simp add: compare_ipAddresses_def legacy_compare_ipAddresses_def import_namespace_def
        compare_bodies_equal(2))

lemma compare_ipAddresses_not_found:
  assumes "''isPrivate'' \<notin> found"
  shows "compare_ipAddresses (import_namespace found exports) request_ip session_ip
     = Inl (Thrown ''TypeError: ip.isPrivate is not a function'')"
  using assms
  by (simp add: compare_ipAddresses_def import_namespace_def ipAddresses_def)


end
